theory Spec2Isabelle
  imports Main
begin

section \<open>Data model (shared/schema.ts)\<close>

text \<open>
  Timestamps (\<^verbatim>\<open>Date\<close>) are milliseconds since the epoch; JavaScript compares two
  dates by these numbers. Identifiers produced by \<^verbatim>\<open>randomUUID()\<close> and the clock
  reading \<^verbatim>\<open>new Date()\<close> are inputs of the operation that asks for them.
  A \<^verbatim>\<open>Map<string, V>\<close> is a partial function from strings; a nullable column
  is an \<open>option\<close>.
\<close>

type_synonym timestamp = int

datatype share_type = Text | Url | File

record share =
  sh_id :: string
  sh_code :: string
  sh_type :: share_type
  sh_content :: string
  sh_fileName :: "string option"
  sh_fileSize :: "int option"
  sh_password :: "string option"
  sh_expiresAt :: timestamp
  sh_oneTimeView :: bool
  sh_viewCount :: int
  sh_createdAt :: timestamp

text \<open>\<^verbatim>\<open>InsertShare\<close>: the share without id, createdAt and viewCount; the nullable
  columns and the column with a default may be left out.\<close>

record insert_share =
  ish_code :: string
  ish_type :: share_type
  ish_content :: string
  ish_fileName :: "string option"
  ish_fileSize :: "int option"
  ish_password :: "string option"
  ish_expiresAt :: timestamp
  ish_oneTimeView :: "bool option"

text \<open>\<^verbatim>\<open>Partial<Share>\<close>: every field may be absent (\<open>None\<close>).\<close>

record share_updates =
  ush_id :: "string option"
  ush_code :: "string option"
  ush_type :: "share_type option"
  ush_content :: "string option"
  ush_fileName :: "string option option"
  ush_fileSize :: "int option option"
  ush_password :: "string option option"
  ush_expiresAt :: "timestamp option"
  ush_oneTimeView :: "bool option"
  ush_viewCount :: "int option"
  ush_createdAt :: "timestamp option"

record chat_session =
  cs_id :: string
  cs_shareCode :: string
  cs_activeUsers :: int
  cs_expiresAt :: timestamp
  cs_createdAt :: timestamp

record insert_chat_session =
  ics_shareCode :: string
  ics_activeUsers :: "int option"
  ics_expiresAt :: timestamp

record chat_session_updates =
  ucs_id :: "string option"
  ucs_shareCode :: "string option"
  ucs_activeUsers :: "int option"
  ucs_expiresAt :: "timestamp option"
  ucs_createdAt :: "timestamp option"

record chat_message =
  cm_id :: string
  cm_shareCode :: string
  cm_message :: string
  cm_userId :: string
  cm_createdAt :: timestamp

record insert_chat_message =
  icm_shareCode :: string
  icm_message :: string
  icm_userId :: string

record private_chat_session =
  pcs_id :: string
  pcs_code :: string
  pcs_activeUsers :: int
  pcs_expiresAt :: timestamp
  pcs_createdAt :: timestamp

record insert_private_chat_session =
  ipcs_code :: string
  ipcs_activeUsers :: "int option"
  ipcs_expiresAt :: timestamp

record private_chat_session_updates =
  upcs_id :: "string option"
  upcs_code :: "string option"
  upcs_activeUsers :: "int option"
  upcs_expiresAt :: "timestamp option"
  upcs_createdAt :: "timestamp option"

record private_chat_message =
  pcm_id :: string
  pcm_chatCode :: string
  pcm_message :: string
  pcm_userId :: string
  pcm_createdAt :: timestamp

record insert_private_chat_message =
  ipcm_chatCode :: string
  ipcm_message :: string
  ipcm_userId :: string

section \<open>MemStorage (server/storage.ts)\<close>

record mem_storage =
  shares :: "string \<rightharpoonup> share"
  chatSessions :: "string \<rightharpoonup> chat_session"
  chatMessages :: "string \<rightharpoonup> chat_message list"
  privateChatSessions :: "string \<rightharpoonup> private_chat_session"
  privateChatMessages :: "string \<rightharpoonup> private_chat_message list"

definition new_storage :: mem_storage where
  "new_storage = \<lparr>shares = Map.empty, chatSessions = Map.empty, chatMessages = Map.empty,
     privateChatSessions = Map.empty, privateChatMessages = Map.empty\<rparr>"

text \<open>JavaScript's \<^verbatim>\<open>x || d\<close> on the values the storage applies it to: the empty
  string, the number 0, \<^verbatim>\<open>false\<close> and a missing value are falsy.\<close>

definition str_or_null :: "string option \<Rightarrow> string option" where
  "str_or_null x = (case x of None \<Rightarrow> None | Some s \<Rightarrow> (if s = [] then None else Some s))"

definition num_or_null :: "int option \<Rightarrow> int option" where
  "num_or_null x = (case x of None \<Rightarrow> None | Some n \<Rightarrow> (if n = 0 then None else Some n))"

definition num_or_zero :: "int option \<Rightarrow> int" where
  "num_or_zero x = (case x of None \<Rightarrow> 0 | Some n \<Rightarrow> n)"

definition bool_or_false :: "bool option \<Rightarrow> bool" where
  "bool_or_false x = (case x of None \<Rightarrow> False | Some b \<Rightarrow> b)"

text \<open>The object spread \<^verbatim>\<open>{ ...old, ...updates }\<close>, field by field.\<close>

definition spread :: "'a \<Rightarrow> 'a option \<Rightarrow> 'a" where
  "spread old upd = (case upd of None \<Rightarrow> old | Some v \<Rightarrow> v)"

subsection \<open>Shares\<close>

definition createShare :: "string \<Rightarrow> timestamp \<Rightarrow> insert_share \<Rightarrow> mem_storage \<Rightarrow> share \<times> mem_storage" where
  "createShare uuid now insertShare st =
     (let share = \<lparr>sh_id = uuid,
                    sh_code = ish_code insertShare,
                    sh_type = ish_type insertShare,
                    sh_content = ish_content insertShare,
                    sh_fileName = str_or_null (ish_fileName insertShare),
                    sh_fileSize = num_or_null (ish_fileSize insertShare),
                    sh_password = str_or_null (ish_password insertShare),
                    sh_expiresAt = ish_expiresAt insertShare,
                    sh_oneTimeView = bool_or_false (ish_oneTimeView insertShare),
                    sh_viewCount = 0,
                    sh_createdAt = now\<rparr>
      in (share, st\<lparr>shares := (shares st)(sh_code share \<mapsto> share)\<rparr>))"

definition getShareByCode :: "timestamp \<Rightarrow> string \<Rightarrow> mem_storage \<Rightarrow> share option \<times> mem_storage" where
  "getShareByCode now code st =
     (case shares st code of
        None \<Rightarrow> (None, st)
      | Some share \<Rightarrow>
          if sh_expiresAt share < now
          then (None, st\<lparr>shares := (shares st)(code := None)\<rparr>)
          else (Some share, st))"

definition apply_share_updates :: "share \<Rightarrow> share_updates \<Rightarrow> share" where
  "apply_share_updates share updates =
     \<lparr>sh_id = spread (sh_id share) (ush_id updates),
      sh_code = spread (sh_code share) (ush_code updates),
      sh_type = spread (sh_type share) (ush_type updates),
      sh_content = spread (sh_content share) (ush_content updates),
      sh_fileName = spread (sh_fileName share) (ush_fileName updates),
      sh_fileSize = spread (sh_fileSize share) (ush_fileSize updates),
      sh_password = spread (sh_password share) (ush_password updates),
      sh_expiresAt = spread (sh_expiresAt share) (ush_expiresAt updates),
      sh_oneTimeView = spread (sh_oneTimeView share) (ush_oneTimeView updates),
      sh_viewCount = spread (sh_viewCount share) (ush_viewCount updates),
      sh_createdAt = spread (sh_createdAt share) (ush_createdAt updates)\<rparr>"

definition updateShare :: "string \<Rightarrow> share_updates \<Rightarrow> mem_storage \<Rightarrow> share option \<times> mem_storage" where
  "updateShare code updates st =
     (case shares st code of
        None \<Rightarrow> (None, st)
      | Some share \<Rightarrow>
          (let updatedShare = apply_share_updates share updates
           in (Some updatedShare, st\<lparr>shares := (shares st)(code \<mapsto> updatedShare)\<rparr>)))"

definition deleteShare :: "string \<Rightarrow> mem_storage \<Rightarrow> bool \<times> mem_storage" where
  "deleteShare code st = (shares st code \<noteq> None, st\<lparr>shares := (shares st)(code := None)\<rparr>)"

subsection \<open>Chat sessions and messages of a share\<close>

definition createChatSession ::
  "string \<Rightarrow> timestamp \<Rightarrow> insert_chat_session \<Rightarrow> mem_storage \<Rightarrow> chat_session \<times> mem_storage" where
  "createChatSession uuid now insertSession st =
     (let session = \<lparr>cs_id = uuid,
                      cs_shareCode = ics_shareCode insertSession,
                      cs_activeUsers = num_or_zero (ics_activeUsers insertSession),
                      cs_expiresAt = ics_expiresAt insertSession,
                      cs_createdAt = now\<rparr>
      in (session, st\<lparr>chatSessions := (chatSessions st)(cs_shareCode session \<mapsto> session)\<rparr>))"

definition getChatSession :: "timestamp \<Rightarrow> string \<Rightarrow> mem_storage \<Rightarrow> chat_session option \<times> mem_storage" where
  "getChatSession now shareCode st =
     (case chatSessions st shareCode of
        None \<Rightarrow> (None, st)
      | Some session \<Rightarrow>
          if cs_expiresAt session < now
          then (None, st\<lparr>chatSessions := (chatSessions st)(shareCode := None),
                          chatMessages := (chatMessages st)(shareCode := None)\<rparr>)
          else (Some session, st))"

definition apply_chat_session_updates :: "chat_session \<Rightarrow> chat_session_updates \<Rightarrow> chat_session" where
  "apply_chat_session_updates session updates =
     \<lparr>cs_id = spread (cs_id session) (ucs_id updates),
      cs_shareCode = spread (cs_shareCode session) (ucs_shareCode updates),
      cs_activeUsers = spread (cs_activeUsers session) (ucs_activeUsers updates),
      cs_expiresAt = spread (cs_expiresAt session) (ucs_expiresAt updates),
      cs_createdAt = spread (cs_createdAt session) (ucs_createdAt updates)\<rparr>"

definition updateChatSession ::
  "string \<Rightarrow> chat_session_updates \<Rightarrow> mem_storage \<Rightarrow> chat_session option \<times> mem_storage" where
  "updateChatSession shareCode updates st =
     (case chatSessions st shareCode of
        None \<Rightarrow> (None, st)
      | Some session \<Rightarrow>
          (let updatedSession = apply_chat_session_updates session updates
           in (Some updatedSession,
               st\<lparr>chatSessions := (chatSessions st)(shareCode \<mapsto> updatedSession)\<rparr>)))"

definition deleteChatSession :: "string \<Rightarrow> mem_storage \<Rightarrow> bool \<times> mem_storage" where
  "deleteChatSession shareCode st =
     (chatSessions st shareCode \<noteq> None,
      st\<lparr>chatMessages := (chatMessages st)(shareCode := None),
         chatSessions := (chatSessions st)(shareCode := None)\<rparr>)"

definition createChatMessage ::
  "string \<Rightarrow> timestamp \<Rightarrow> insert_chat_message \<Rightarrow> mem_storage \<Rightarrow> chat_message \<times> mem_storage" where
  "createChatMessage uuid now insertMessage st =
     (let message = \<lparr>cm_id = uuid,
                      cm_shareCode = icm_shareCode insertMessage,
                      cm_message = icm_message insertMessage,
                      cm_userId = icm_userId insertMessage,
                      cm_createdAt = now\<rparr>;
          messages = (case chatMessages st (icm_shareCode insertMessage) of
                        None \<Rightarrow> [] | Some ms \<Rightarrow> ms)
      in (message,
          st\<lparr>chatMessages := (chatMessages st)(icm_shareCode insertMessage \<mapsto> messages @ [message])\<rparr>))"

definition getChatMessages :: "string \<Rightarrow> mem_storage \<Rightarrow> chat_message list" where
  "getChatMessages shareCode st = (case chatMessages st shareCode of None \<Rightarrow> [] | Some ms \<Rightarrow> ms)"

subsection \<open>Private chat sessions and messages\<close>

definition createPrivateChatSession ::
  "string \<Rightarrow> timestamp \<Rightarrow> insert_private_chat_session \<Rightarrow> mem_storage
     \<Rightarrow> private_chat_session \<times> mem_storage" where
  "createPrivateChatSession uuid now insertSession st =
     (let session = \<lparr>pcs_id = uuid,
                      pcs_code = ipcs_code insertSession,
                      pcs_activeUsers = num_or_zero (ipcs_activeUsers insertSession),
                      pcs_expiresAt = ipcs_expiresAt insertSession,
                      pcs_createdAt = now\<rparr>
      in (session,
          st\<lparr>privateChatSessions := (privateChatSessions st)(pcs_code session \<mapsto> session)\<rparr>))"

definition getPrivateChatSession ::
  "timestamp \<Rightarrow> string \<Rightarrow> mem_storage \<Rightarrow> private_chat_session option \<times> mem_storage" where
  "getPrivateChatSession now chatCode st =
     (case privateChatSessions st chatCode of
        None \<Rightarrow> (None, st)
      | Some session \<Rightarrow>
          if pcs_expiresAt session < now
          then (None, st\<lparr>privateChatSessions := (privateChatSessions st)(chatCode := None),
                          privateChatMessages := (privateChatMessages st)(chatCode := None)\<rparr>)
          else (Some session, st))"

definition apply_private_chat_session_updates ::
  "private_chat_session \<Rightarrow> private_chat_session_updates \<Rightarrow> private_chat_session" where
  "apply_private_chat_session_updates session updates =
     \<lparr>pcs_id = spread (pcs_id session) (upcs_id updates),
      pcs_code = spread (pcs_code session) (upcs_code updates),
      pcs_activeUsers = spread (pcs_activeUsers session) (upcs_activeUsers updates),
      pcs_expiresAt = spread (pcs_expiresAt session) (upcs_expiresAt updates),
      pcs_createdAt = spread (pcs_createdAt session) (upcs_createdAt updates)\<rparr>"

definition updatePrivateChatSession ::
  "string \<Rightarrow> private_chat_session_updates \<Rightarrow> mem_storage
     \<Rightarrow> private_chat_session option \<times> mem_storage" where
  "updatePrivateChatSession chatCode updates st =
     (case privateChatSessions st chatCode of
        None \<Rightarrow> (None, st)
      | Some session \<Rightarrow>
          (let updatedSession = apply_private_chat_session_updates session updates
           in (Some updatedSession,
               st\<lparr>privateChatSessions := (privateChatSessions st)(chatCode \<mapsto> updatedSession)\<rparr>)))"

definition deletePrivateChatSession :: "string \<Rightarrow> mem_storage \<Rightarrow> bool \<times> mem_storage" where
  "deletePrivateChatSession chatCode st =
     (privateChatSessions st chatCode \<noteq> None,
      st\<lparr>privateChatMessages := (privateChatMessages st)(chatCode := None),
         privateChatSessions := (privateChatSessions st)(chatCode := None)\<rparr>)"

definition createPrivateChatMessage ::
  "string \<Rightarrow> timestamp \<Rightarrow> insert_private_chat_message \<Rightarrow> mem_storage
     \<Rightarrow> private_chat_message \<times> mem_storage" where
  "createPrivateChatMessage uuid now insertMessage st =
     (let message = \<lparr>pcm_id = uuid,
                      pcm_chatCode = ipcm_chatCode insertMessage,
                      pcm_message = ipcm_message insertMessage,
                      pcm_userId = ipcm_userId insertMessage,
                      pcm_createdAt = now\<rparr>;
          messages = (case privateChatMessages st (ipcm_chatCode insertMessage) of
                        None \<Rightarrow> [] | Some ms \<Rightarrow> ms)
      in (message,
          st\<lparr>privateChatMessages :=
                (privateChatMessages st)(ipcm_chatCode insertMessage \<mapsto> messages @ [message])\<rparr>))"

definition getPrivateChatMessages :: "string \<Rightarrow> mem_storage \<Rightarrow> private_chat_message list" where
  "getPrivateChatMessages chatCode st =
     (case privateChatMessages st chatCode of None \<Rightarrow> [] | Some ms \<Rightarrow> ms)"

subsection \<open>The periodic sweep\<close>

text \<open>
  \<^verbatim>\<open>cleanupExpired\<close> walks a snapshot of each map and deletes the keys whose value
  has \<^verbatim>\<open>expiresAt < now\<close>; for a session it deletes the message log of the same key
  too. Every step touches its own key only, so the three loops are given key by key.
\<close>

definition share_expired :: "timestamp \<Rightarrow> share option \<Rightarrow> bool" where
  "share_expired now s = (case s of None \<Rightarrow> False | Some share \<Rightarrow> sh_expiresAt share < now)"

definition chat_session_expired :: "timestamp \<Rightarrow> chat_session option \<Rightarrow> bool" where
  "chat_session_expired now s =
     (case s of None \<Rightarrow> False | Some session \<Rightarrow> cs_expiresAt session < now)"

definition private_chat_session_expired :: "timestamp \<Rightarrow> private_chat_session option \<Rightarrow> bool" where
  "private_chat_session_expired now s =
     (case s of None \<Rightarrow> False | Some session \<Rightarrow> pcs_expiresAt session < now)"

definition cleanupExpired :: "timestamp \<Rightarrow> mem_storage \<Rightarrow> mem_storage" where
  "cleanupExpired now st =
     \<lparr>shares = (\<lambda>code. if share_expired now (shares st code) then None else shares st code),
      chatSessions =
        (\<lambda>code. if chat_session_expired now (chatSessions st code) then None
                 else chatSessions st code),
      chatMessages =
        (\<lambda>code. if chat_session_expired now (chatSessions st code) then None
                 else chatMessages st code),
      privateChatSessions =
        (\<lambda>code. if private_chat_session_expired now (privateChatSessions st code) then None
                 else privateChatSessions st code),
      privateChatMessages =
        (\<lambda>code. if private_chat_session_expired now (privateChatSessions st code) then None
                 else privateChatMessages st code)\<rparr>"

section \<open>HTTP routes (server/routes.ts)\<close>

text \<open>
  \<^verbatim>\<open>String.prototype.toUpperCase\<close> on the ASCII letters; codes are the eight
  hexadecimal digits of \<^verbatim>\<open>generateCode\<close>. No property below depends on how
  the function maps its argument.
\<close>

definition upper_char :: "char \<Rightarrow> char" where
  "upper_char c =
     (let n = (of_char c :: nat) in if 97 \<le> n \<and> n \<le> 122 then char_of (n - 32) else c)"

definition toUpperCase :: "string \<Rightarrow> string" where
  "toUpperCase s = map upper_char s"

text \<open>\<^verbatim>\<open>a || b\<close> on numbers: 0 is falsy.\<close>

definition num_or :: "int \<Rightarrow> int \<Rightarrow> int" where
  "num_or a b = (if a = 0 then b else a)"

text \<open>
  The password check of the read route (\<^verbatim>\<open>if (share.password) { ... }\<close>), up to the
  call of \<^verbatim>\<open>bcrypt.compare\<close>: a stored password that is \<^verbatim>\<open>null\<close> or empty is
  falsy and skips the check; a missing or empty request password is falsy and asks for the
  password; otherwise the request password is compared with the stored hash.
\<close>

datatype password_gate =
    NoCheck
  | PasswordMissing
  | Compare string string   \<comment> \<open>request password, stored hash\<close>

definition password_gate_of :: "string option \<Rightarrow> string option \<Rightarrow> password_gate" where
  "password_gate_of stored password =
     (case stored of
        None \<Rightarrow> NoCheck
      | Some hash \<Rightarrow>
          if hash = [] then NoCheck
          else (case password of
                  None \<Rightarrow> PasswordMissing
                | Some pw \<Rightarrow> if pw = [] then PasswordMissing else Compare pw hash))"

record url_metadata =
  md_title :: string
  md_description :: string
  md_image :: string
  md_domain :: string

record response_data =
  rd_type :: share_type
  rd_content :: string
  rd_fileName :: "string option"
  rd_fileSize :: "int option"
  rd_expiresAt :: timestamp
  rd_viewCount :: int
  rd_fileData :: "string option"
  rd_metadata :: "url_metadata option"

datatype get_share_result =
    NotFound              \<comment> \<open>404, "Share not found or expired"\<close>
  | RequiresPassword      \<comment> \<open>200, \<^verbatim>\<open>{ requiresPassword: true }\<close>\<close>
  | InvalidPassword       \<comment> \<open>401, "Invalid password"\<close>
  | Content response_data \<comment> \<open>200, the share's data\<close>

text \<open>The update \<^verbatim>\<open>{ viewCount: n }\<close>.\<close>

definition only_viewCount :: "int \<Rightarrow> share_updates" where
  "only_viewCount n =
     \<lparr>ush_id = None, ush_code = None, ush_type = None, ush_content = None,
      ush_fileName = None, ush_fileSize = None, ush_password = None, ush_expiresAt = None,
      ush_oneTimeView = None, ush_viewCount = Some n, ush_createdAt = None\<rparr>"

text \<open>
  \<^verbatim>\<open>app.get("/api/shares/:code")\<close>. The external collaborators are parameters:
  \<open>bcrypt_compare password hash\<close> is the outcome of \<^verbatim>\<open>bcrypt.compare\<close>, and
  \<open>fetchUrlMetadata url\<close> the outcome of the metadata fetch (\<open>None\<close> when it throws,
  which the route catches). \<open>password\<close> is the field of the request body, \<open>None\<close>
  when the body has none.

  The handler is given in two parts, cut at \<^verbatim>\<open>await bcrypt.compare\<close>: there the
  handler waits for work done outside the event loop, and other requests are handled
  before it goes on. \<open>getShareRoute_start\<close> runs from the lookup to that point, or to
  the answer when nothing is compared. \<open>getShareRoute_resume\<close> goes on from the
  outcome of the compare, on the storage as it is by then and with the \<^verbatim>\<open>share\<close>
  object that was read before the wait. \<open>serveShare\<close> is the rest of the handler, from
  the view count to the response.
\<close>

datatype read_progress =
    Answered get_share_result
  | AwaitingCompare share string string   \<comment> \<open>the share read, request password, stored hash\<close>

definition serveShare ::
  "(string \<Rightarrow> url_metadata option) \<Rightarrow> string \<Rightarrow> share \<Rightarrow> mem_storage
     \<Rightarrow> get_share_result \<times> mem_storage" where
  "serveShare fetchUrlMetadata code share st1 =
     (let (updatedShare, st2) =
            updateShare (toUpperCase code)
              (only_viewCount (num_or (sh_viewCount share) 0 + 1)) st1;
          st3 = (if sh_oneTimeView share then snd (deleteShare (toUpperCase code) st2)
                 else st2);
          fallback = num_or (sh_viewCount share) 0 + 1;
          responseData =
            \<lparr>rd_type = sh_type share,
             rd_content = sh_content share,
             rd_fileName = sh_fileName share,
             rd_fileSize = sh_fileSize share,
             rd_expiresAt = sh_expiresAt share,
             rd_viewCount = (case updatedShare of None \<Rightarrow> fallback
                             | Some u \<Rightarrow> num_or (sh_viewCount u) fallback),
             rd_fileData = (if sh_type share = File then Some (sh_content share) else None),
             rd_metadata = (if sh_type share = Url then fetchUrlMetadata (sh_content share)
                            else None)\<rparr>
      in (Content responseData, st3))"

definition getShareRoute_start ::
  "(string \<Rightarrow> url_metadata option) \<Rightarrow> timestamp \<Rightarrow> string \<Rightarrow> string option \<Rightarrow> mem_storage
     \<Rightarrow> read_progress \<times> mem_storage" where
  "getShareRoute_start fetchUrlMetadata now code password st =
     (case getShareByCode now (toUpperCase code) st of
        (None, st1) \<Rightarrow> (Answered NotFound, st1)
      | (Some share, st1) \<Rightarrow>
          (case password_gate_of (sh_password share) password of
             PasswordMissing \<Rightarrow> (Answered RequiresPassword, st1)
           | Compare pw hash \<Rightarrow> (AwaitingCompare share pw hash, st1)
           | NoCheck \<Rightarrow>
               (case serveShare fetchUrlMetadata code share st1 of
                  (response, st3) \<Rightarrow> (Answered response, st3))))"

definition getShareRoute_resume ::
  "(string \<Rightarrow> string \<Rightarrow> bool) \<Rightarrow> (string \<Rightarrow> url_metadata option) \<Rightarrow> string
     \<Rightarrow> read_progress \<Rightarrow> mem_storage \<Rightarrow> get_share_result \<times> mem_storage" where
  "getShareRoute_resume bcrypt_compare fetchUrlMetadata code progress st =
     (case progress of
        Answered response \<Rightarrow> (response, st)
      | AwaitingCompare share pw hash \<Rightarrow>
          if bcrypt_compare pw hash then serveShare fetchUrlMetadata code share st
          else (InvalidPassword, st))"

text \<open>A request with no other request handled while it waits.\<close>

definition getShareRoute ::
  "(string \<Rightarrow> string \<Rightarrow> bool) \<Rightarrow> (string \<Rightarrow> url_metadata option) \<Rightarrow> timestamp
     \<Rightarrow> string \<Rightarrow> string option \<Rightarrow> mem_storage \<Rightarrow> get_share_result \<times> mem_storage" where
  "getShareRoute bcrypt_compare fetchUrlMetadata now code password st =
     (case getShareRoute_start fetchUrlMetadata now code password st of
        (progress, st1) \<Rightarrow> getShareRoute_resume bcrypt_compare fetchUrlMetadata code progress st1)"

text \<open>\<^verbatim>\<open>app.post("/api/private-chat")\<close>; \<open>code\<close> is what \<^verbatim>\<open>generateCode()\<close> returned.\<close>

definition createPrivateChatRoute ::
  "string \<Rightarrow> string \<Rightarrow> timestamp \<Rightarrow> mem_storage \<Rightarrow> private_chat_session \<times> mem_storage" where
  "createPrivateChatRoute code uuid now st =
     createPrivateChatSession uuid now
       \<lparr>ipcs_code = code, ipcs_activeUsers = Some 0,
        ipcs_expiresAt = now + 2 * 60 * 60 * 1000\<rparr> st"

section \<open>The chat broker over WebSocket connections (server/routes.ts)\<close>

text \<open>
  A connection is known by a number. \<^verbatim>\<open>clients\<close> maps a connection to its binding,
  \<^verbatim>\<open>shareRooms\<close> maps a room code to its \<^verbatim>\<open>Set<WebSocket>\<close>: the members in
  insertion order, each once, and the set's \<^verbatim>\<open>size\<close> is the length of the list.
  Content rooms and private chat rooms share both maps. Each handler runs without another
  handler in between and reads the clock once; what it sends is returned as a list of
  (recipient, event) pairs. \<open>isOpen c\<close> stands for \<^verbatim>\<open>c.readyState === WebSocket.OPEN\<close>.
\<close>

type_synonym ws = nat

record client_connection =
  cc_ws :: ws
  cc_shareCode :: string
  cc_userId :: string

record server =
  storage :: mem_storage
  clients :: "ws \<rightharpoonup> client_connection"
  shareRooms :: "string \<rightharpoonup> ws list"

definition new_server :: server where
  "new_server = \<lparr>storage = new_storage, clients = Map.empty, shareRooms = Map.empty\<rparr>"

record wire_message =
  wm_id :: string
  wm_message :: string
  wm_userId :: string
  wm_createdAt :: timestamp

datatype outbound =
    ErrorEvent string
  | UserCount int "timestamp option"
  | ChatHistory "wire_message list"
  | NewMessage wire_message

datatype inbound =
    Join string string              \<comment> \<open>shareCode, userId\<close>
  | JoinPrivateChat string string   \<comment> \<open>chatCode, userId\<close>
  | Message string                  \<comment> \<open>content\<close>
  | PrivateMessage string           \<comment> \<open>content\<close>

definition set_add :: "ws \<Rightarrow> ws list \<Rightarrow> ws list" where
  "set_add c room = (if c \<in> set room then room else room @ [c])"

definition set_delete :: "ws \<Rightarrow> ws list \<Rightarrow> ws list" where
  "set_delete c room = removeAll c room"

definition room_of :: "(string \<rightharpoonup> ws list) \<Rightarrow> string \<Rightarrow> ws list" where
  "room_of rooms code = (case rooms code of None \<Rightarrow> [] | Some room \<Rightarrow> room)"

definition broadcast :: "(ws \<Rightarrow> bool) \<Rightarrow> ws list \<Rightarrow> outbound \<Rightarrow> (ws \<times> outbound) list" where
  "broadcast isOpen room ev = map (\<lambda>c. (c, ev)) (filter isOpen room)"

definition wire_of_chat_message :: "chat_message \<Rightarrow> wire_message" where
  "wire_of_chat_message msg =
     \<lparr>wm_id = cm_id msg, wm_message = cm_message msg, wm_userId = cm_userId msg,
      wm_createdAt = cm_createdAt msg\<rparr>"

definition wire_of_private_chat_message :: "private_chat_message \<Rightarrow> wire_message" where
  "wire_of_private_chat_message msg =
     \<lparr>wm_id = pcm_id msg, wm_message = pcm_message msg, wm_userId = pcm_userId msg,
      wm_createdAt = pcm_createdAt msg\<rparr>"

definition only_activeUsers :: "int \<Rightarrow> chat_session_updates" where
  "only_activeUsers n =
     \<lparr>ucs_id = None, ucs_shareCode = None, ucs_activeUsers = Some n, ucs_expiresAt = None,
      ucs_createdAt = None\<rparr>"

definition only_private_activeUsers :: "int \<Rightarrow> private_chat_session_updates" where
  "only_private_activeUsers n =
     \<lparr>upcs_id = None, upcs_code = None, upcs_activeUsers = Some n, upcs_expiresAt = None,
      upcs_createdAt = None\<rparr>"

text \<open>
  \<^verbatim>\<open>message.type === 'join'\<close>. When the session is created anew it is stored with
  \<^verbatim>\<open>activeUsers: 1\<close>; otherwise the count is set to the size of the room. Reading
  \<^verbatim>\<open>session!.expiresAt\<close> of a missing session throws at the first open member, and the
  handler's \<^verbatim>\<open>catch\<close> answers "Invalid message format".
\<close>

definition handleJoin ::
  "(ws \<Rightarrow> bool) \<Rightarrow> timestamp \<Rightarrow> string \<Rightarrow> ws \<Rightarrow> string \<Rightarrow> string \<Rightarrow> server
     \<Rightarrow> (ws \<times> outbound) list \<times> server" where
  "handleJoin isOpen now uuid c shareCode userId srv =
     (let code = toUpperCase shareCode in
      case getShareByCode now code (storage srv) of
        (None, st1) \<Rightarrow> ([(c, ErrorEvent ''Share not found'')], srv\<lparr>storage := st1\<rparr>)
      | (Some share, st1) \<Rightarrow>
          (let clients1 = (clients srv)(c \<mapsto> \<lparr>cc_ws = c, cc_shareCode = code, cc_userId = userId\<rparr>);
               room = set_add c (room_of (shareRooms srv) code);
               rooms1 = (shareRooms srv)(code \<mapsto> room);
               (session, st3) =
                 (case getChatSession now code st1 of
                    (None, st2) \<Rightarrow>
                      (let (created, st') =
                             createChatSession uuid now
                               \<lparr>ics_shareCode = code, ics_activeUsers = Some 1,
                                ics_expiresAt = now + 30 * 60 * 1000\<rparr> st2
                       in (Some created, st'))
                  | (Some existing, st2) \<Rightarrow>
                      updateChatSession code (only_activeUsers (int (length room))) st2);
               srv1 = \<lparr>storage = st3, clients = clients1, shareRooms = rooms1\<rparr>;
               history = (c, ChatHistory (map wire_of_chat_message (getChatMessages code st3)))
           in case session of
                None \<Rightarrow>
                  if filter isOpen room = [] then ([history], srv1)
                  else ([(c, ErrorEvent ''Invalid message format'')], srv1)
              | Some s \<Rightarrow>
                  (broadcast isOpen room (UserCount (int (length room)) (Some (cs_expiresAt s)))
                     @ [history], srv1)))"

text \<open>\<^verbatim>\<open>message.type === 'joinPrivateChat'\<close>.\<close>

definition handleJoinPrivateChat ::
  "(ws \<Rightarrow> bool) \<Rightarrow> timestamp \<Rightarrow> ws \<Rightarrow> string \<Rightarrow> string \<Rightarrow> server
     \<Rightarrow> (ws \<times> outbound) list \<times> server" where
  "handleJoinPrivateChat isOpen now c chatCode userId srv =
     (let code = toUpperCase chatCode in
      case getPrivateChatSession now code (storage srv) of
        (None, st1) \<Rightarrow>
          ([(c, ErrorEvent ''Private chat room not found or expired'')], srv\<lparr>storage := st1\<rparr>)
      | (Some session, st1) \<Rightarrow>
          (let clients1 = (clients srv)(c \<mapsto> \<lparr>cc_ws = c, cc_shareCode = code, cc_userId = userId\<rparr>);
               room = set_add c (room_of (shareRooms srv) code);
               rooms1 = (shareRooms srv)(code \<mapsto> room);
               st2 = snd (updatePrivateChatSession code
                            (only_private_activeUsers (int (length room))) st1);
               srv1 = \<lparr>storage = st2, clients = clients1, shareRooms = rooms1\<rparr>
           in (broadcast isOpen room (UserCount (int (length room)) (Some (pcs_expiresAt session)))
                 @ [(c, ChatHistory (map wire_of_private_chat_message
                                       (getPrivateChatMessages code st2)))],
               srv1)))"

text \<open>\<^verbatim>\<open>message.type === 'message'\<close>.\<close>

definition handleMessage ::
  "(ws \<Rightarrow> bool) \<Rightarrow> timestamp \<Rightarrow> string \<Rightarrow> ws \<Rightarrow> string \<Rightarrow> server
     \<Rightarrow> (ws \<times> outbound) list \<times> server" where
  "handleMessage isOpen now uuid c content srv =
     (case clients srv c of
        None \<Rightarrow> ([], srv)
      | Some client \<Rightarrow>
          (let (chatMessage, st1) =
                 createChatMessage uuid now
                   \<lparr>icm_shareCode = cc_shareCode client, icm_message = content,
                    icm_userId = cc_userId client\<rparr> (storage srv);
               srv1 = srv\<lparr>storage := st1\<rparr>
           in case shareRooms srv (cc_shareCode client) of
                None \<Rightarrow> ([], srv1)
              | Some roomClients \<Rightarrow>
                  (broadcast isOpen roomClients (NewMessage (wire_of_chat_message chatMessage)),
                   srv1)))"

text \<open>\<^verbatim>\<open>message.type === 'privateMessage'\<close>.\<close>

definition handlePrivateMessage ::
  "(ws \<Rightarrow> bool) \<Rightarrow> timestamp \<Rightarrow> string \<Rightarrow> ws \<Rightarrow> string \<Rightarrow> server
     \<Rightarrow> (ws \<times> outbound) list \<times> server" where
  "handlePrivateMessage isOpen now uuid c content srv =
     (case clients srv c of
        None \<Rightarrow> ([], srv)
      | Some client \<Rightarrow>
          (let (chatMessage, st1) =
                 createPrivateChatMessage uuid now
                   \<lparr>ipcm_chatCode = cc_shareCode client, ipcm_message = content,
                    ipcm_userId = cc_userId client\<rparr> (storage srv);
               srv1 = srv\<lparr>storage := st1\<rparr>
           in case shareRooms srv (cc_shareCode client) of
                None \<Rightarrow> ([], srv1)
              | Some roomClients \<Rightarrow>
                  (broadcast isOpen roomClients
                     (NewMessage (wire_of_private_chat_message chatMessage)),
                   srv1)))"

text \<open>\<^verbatim>\<open>ws.on('message')\<close>: the four message types.\<close>

definition onMessage ::
  "(ws \<Rightarrow> bool) \<Rightarrow> timestamp \<Rightarrow> string \<Rightarrow> ws \<Rightarrow> inbound \<Rightarrow> server
     \<Rightarrow> (ws \<times> outbound) list \<times> server" where
  "onMessage isOpen now uuid c msg srv =
     (case msg of
        Join shareCode userId \<Rightarrow> handleJoin isOpen now uuid c shareCode userId srv
      | JoinPrivateChat chatCode userId \<Rightarrow> handleJoinPrivateChat isOpen now c chatCode userId srv
      | Message content \<Rightarrow> handleMessage isOpen now uuid c content srv
      | PrivateMessage content \<Rightarrow> handlePrivateMessage isOpen now uuid c content srv)"

text \<open>
  \<^verbatim>\<open>ws.on('close')\<close>. \<^verbatim>\<open>roomClients.delete(ws)\<close> changes the set held by
  \<^verbatim>\<open>shareRooms\<close>. Whatever kind of room the connection joined, the handler calls
  \<^verbatim>\<open>deleteChatSession\<close> and \<^verbatim>\<open>updateChatSession\<close>.
\<close>

definition onClose :: "(ws \<Rightarrow> bool) \<Rightarrow> ws \<Rightarrow> server \<Rightarrow> (ws \<times> outbound) list \<times> server" where
  "onClose isOpen c srv =
     (case clients srv c of
        None \<Rightarrow> ([], srv)
      | Some client \<Rightarrow>
          (let (out, srv1) =
                 (case shareRooms srv (cc_shareCode client) of
                    None \<Rightarrow> ([], srv)
                  | Some roomClients0 \<Rightarrow>
                      (let roomClients = set_delete c roomClients0 in
                       if length roomClients = 0
                       then ([], srv\<lparr>shareRooms := (shareRooms srv)(cc_shareCode client := None),
                                     storage := snd (deleteChatSession (cc_shareCode client)
                                                       (storage srv))\<rparr>)
                       else (broadcast isOpen roomClients
                               (UserCount (int (length roomClients)) None),
                             srv\<lparr>shareRooms := (shareRooms srv)(cc_shareCode client \<mapsto> roomClients),
                                 storage := snd (updateChatSession (cc_shareCode client)
                                                   (only_activeUsers (int (length roomClients)))
                                                   (storage srv))\<rparr>)))
           in (out, srv1\<lparr>clients := (clients srv1)(c := None)\<rparr>)))"

section \<open>Sequences of appends\<close>

text \<open>The message that \<^verbatim>\<open>createChatMessage\<close> builds from its input, the identifier
  and the clock reading; likewise for private chats.\<close>

definition stamped :: "string \<times> timestamp \<times> insert_chat_message \<Rightarrow> chat_message" where
  "stamped r =
     (case r of (uuid, now, insertMessage) \<Rightarrow>
        \<lparr>cm_id = uuid, cm_shareCode = icm_shareCode insertMessage,
         cm_message = icm_message insertMessage, cm_userId = icm_userId insertMessage,
         cm_createdAt = now\<rparr>)"

definition stamped_private ::
  "string \<times> timestamp \<times> insert_private_chat_message \<Rightarrow> private_chat_message" where
  "stamped_private r =
     (case r of (uuid, now, insertMessage) \<Rightarrow>
        \<lparr>pcm_id = uuid, pcm_chatCode = ipcm_chatCode insertMessage,
         pcm_message = ipcm_message insertMessage, pcm_userId = ipcm_userId insertMessage,
         pcm_createdAt = now\<rparr>)"



section \<open>Example inputs\<close>

definition ex_code :: string where
  "ex_code = ''A1B2C3D4''"

definition ex_insert_share :: insert_share where
  "ex_insert_share =
     \<lparr>ish_code = ex_code, ish_type = Text, ish_content = ''hello'', ish_fileName = None,
      ish_fileSize = None, ish_password = None, ish_expiresAt = 61000,
      ish_oneTimeView = Some True\<rparr>"

text \<open>A storage holding one one-time-view text share, made at time 1000 for one minute.\<close>

definition ex_storage :: mem_storage where
  "ex_storage = snd (createShare ''id-1'' 1000 ex_insert_share new_storage)"

definition ex_share :: share where
  "ex_share = fst (createShare ''id-1'' 1000 ex_insert_share new_storage)"

text \<open>A second creation request that carries the same code.\<close>

definition ex_insert_share_again :: insert_share where
  "ex_insert_share_again =
     \<lparr>ish_code = ex_code, ish_type = Text, ish_content = ''other'', ish_fileName = None,
      ish_fileSize = None, ish_password = None, ish_expiresAt = 700000,
      ish_oneTimeView = None\<rparr>"

text \<open>A password-protected share that is not one-time-view; \<open>ex_compare\<close> accepts the
  password \<open>''secret''\<close> for its stored hash.\<close>

definition ex_insert_protected :: insert_share where
  "ex_insert_protected =
     \<lparr>ish_code = ex_code, ish_type = Text, ish_content = ''hidden'', ish_fileName = None,
      ish_fileSize = None, ish_password = Some ''$2b$10$hash'', ish_expiresAt = 61000,
      ish_oneTimeView = Some False\<rparr>"

definition ex_protected_storage :: mem_storage where
  "ex_protected_storage = snd (createShare ''id-2'' 1000 ex_insert_protected new_storage)"

definition ex_protected_share :: share where
  "ex_protected_share = fst (createShare ''id-2'' 1000 ex_insert_protected new_storage)"

definition ex_compare :: "string \<Rightarrow> string \<Rightarrow> bool" where
  "ex_compare pw hash = (pw = ''secret'' \<and> hash = ''$2b$10$hash'')"

definition ex_no_metadata :: "string \<Rightarrow> url_metadata option" where
  "ex_no_metadata url = None"

text \<open>
  A password-protected one-time-view share, and two read requests with the right password
  that overlap: both are started before the compare of either has answered, then the
  first goes on, then the second.
\<close>

definition ex_insert_protected_once :: insert_share where
  "ex_insert_protected_once =
     \<lparr>ish_code = ex_code, ish_type = Text, ish_content = ''hello'', ish_fileName = None,
      ish_fileSize = None, ish_password = Some ''$2b$10$hash'', ish_expiresAt = 61000,
      ish_oneTimeView = Some True\<rparr>"

definition ex_once_storage :: mem_storage where
  "ex_once_storage = snd (createShare ''id-2'' 1000 ex_insert_protected_once new_storage)"

definition ex_once_response :: response_data where
  "ex_once_response =
     \<lparr>rd_type = Text, rd_content = ''hello'', rd_fileName = None, rd_fileSize = None,
      rd_expiresAt = 61000, rd_viewCount = 1, rd_fileData = None, rd_metadata = None\<rparr>"

definition overlap_started_A :: "read_progress \<times> mem_storage" where
  "overlap_started_A =
     getShareRoute_start ex_no_metadata 2000 ex_code (Some ''secret'') ex_once_storage"

definition overlap_started_B :: "read_progress \<times> mem_storage" where
  "overlap_started_B =
     getShareRoute_start ex_no_metadata 2001 ex_code (Some ''secret'') (snd overlap_started_A)"

definition overlap_answered_A :: "get_share_result \<times> mem_storage" where
  "overlap_answered_A =
     getShareRoute_resume ex_compare ex_no_metadata ex_code (fst overlap_started_A)
       (snd overlap_started_B)"

definition overlap_answered_B :: "get_share_result \<times> mem_storage" where
  "overlap_answered_B =
     getShareRoute_resume ex_compare ex_no_metadata ex_code (fst overlap_started_B)
       (snd overlap_answered_A)"

definition ex_insert_message :: "string \<Rightarrow> string \<Rightarrow> insert_chat_message" where
  "ex_insert_message code txt = \<lparr>icm_shareCode = code, icm_message = txt, icm_userId = ''A''\<rparr>"

definition ex_insert_private_message :: "string \<Rightarrow> string \<Rightarrow> insert_private_chat_message" where
  "ex_insert_private_message code txt =
     \<lparr>ipcm_chatCode = code, ipcm_message = txt, ipcm_userId = ''A''\<rparr>"

definition ex_chat_session :: chat_session where
  "ex_chat_session =
     \<lparr>cs_id = ''id-3'', cs_shareCode = ex_code, cs_activeUsers = 1, cs_expiresAt = 1801000,
      cs_createdAt = 1000\<rparr>"

definition ex_chat_storage :: mem_storage where
  "ex_chat_storage = new_storage\<lparr>chatSessions := [ex_code \<mapsto> ex_chat_session]\<rparr>"

definition ex_private_chat_storage :: mem_storage where
  "ex_private_chat_storage = snd (createPrivateChatRoute ex_code ''id-4'' 1000 new_storage)"

definition ex_private_chat_session :: private_chat_session where
  "ex_private_chat_session = fst (createPrivateChatRoute ex_code ''id-4'' 1000 new_storage)"

text \<open>
  A standalone private chat room: created at time 1000, joined by connection 1 (user A)
  and connection 2 (user B), one message sent by A, then A disconnects, then B disconnects.
  Every connection is open while it is sent to.
\<close>

definition all_open :: "ws \<Rightarrow> bool" where
  "all_open c = True"

definition private_room_created :: server where
  "private_room_created =
     new_server\<lparr>storage := snd (createPrivateChatRoute ex_code ''id-4'' 1000 new_storage)\<rparr>"

definition private_room_joined_A :: server where
  "private_room_joined_A =
     snd (onMessage all_open 2000 ''id-5'' 1 (JoinPrivateChat ex_code ''A'') private_room_created)"

definition private_room_joined_B :: server where
  "private_room_joined_B =
     snd (onMessage all_open 3000 ''id-6'' 2 (JoinPrivateChat ex_code ''B'') private_room_joined_A)"

definition private_room_message :: server where
  "private_room_message =
     snd (onMessage all_open 4000 ''id-7'' 1 (PrivateMessage ''hi'') private_room_joined_B)"

definition private_room_closed_A :: server where
  "private_room_closed_A = snd (onClose all_open 1 private_room_message)"

definition private_room_closed_B :: server where
  "private_room_closed_B = snd (onClose all_open 2 private_room_closed_A)"

text \<open>
  A content room outliving its chat session: a share valid for one day, connection 1 joins
  at time 2000 (the session is created, valid for 30 minutes), connection 2 joins one
  millisecond after the session's \<^verbatim>\<open>expiresAt\<close>.
\<close>

definition ex_insert_day_share :: insert_share where
  "ex_insert_day_share =
     \<lparr>ish_code = ex_code, ish_type = Text, ish_content = ''hello'', ish_fileName = None,
      ish_fileSize = None, ish_password = None, ish_expiresAt = 86401000,
      ish_oneTimeView = Some False\<rparr>"

definition content_room_created :: server where
  "content_room_created =
     new_server\<lparr>storage := snd (createShare ''id-1'' 1000 ex_insert_day_share new_storage)\<rparr>"

definition content_room_joined_A :: server where
  "content_room_joined_A =
     snd (onMessage all_open 2000 ''id-5'' 1 (Join ex_code ''A'') content_room_created)"

definition content_room_joined_B :: server where
  "content_room_joined_B =
     snd (onMessage all_open 1802001 ''id-6'' 2 (Join ex_code ''B'') content_room_joined_A)"

section \<open>Facts about the examples\<close>

lemma toUpperCase_ex_code: "toUpperCase ex_code = ex_code"
  by code_simp

lemma shares_ex_storage: "shares ex_storage ex_code = Some ex_share"
  by (simp add: ex_storage_def ex_share_def createShare_def ex_insert_share_def Let_def)

lemma ex_share_expiresAt: "sh_expiresAt ex_share = 61000"
  by (simp add: ex_share_def createShare_def ex_insert_share_def Let_def)

lemma chatSessions_ex: "chatSessions ex_chat_storage ex_code = Some ex_chat_session"
  by (simp add: ex_chat_storage_def)

lemma privateChatSessions_ex:
  "privateChatSessions ex_private_chat_storage ex_code = Some ex_private_chat_session"
  by (simp add: ex_private_chat_storage_def ex_private_chat_session_def
      createPrivateChatRoute_def createPrivateChatSession_def Let_def)

section \<open>Properties of the storage\<close>

subsection \<open>Updating a share that is not there\<close>

text \<open>
  C10. For a code with no entry in the share map, \<^verbatim>\<open>updateShare\<close> returns
  \<^verbatim>\<open>undefined\<close> and the whole storage is as it was: no entry is made from the updates.
\<close>

theorem updateShare_absent:
  assumes "shares st code = None"
  shows "updateShare code updates st = (None, st)"
  using assms by (simp add: updateShare_def)

theorem updateShare_absent_witness:
  "shares new_storage ex_code = None
   \<and> updateShare ex_code
        \<lparr>ush_id = None, ush_code = None, ush_type = None, ush_content = Some ''x'',
         ush_fileName = None, ush_fileSize = None, ush_password = None, ush_expiresAt = None,
         ush_oneTimeView = None, ush_viewCount = Some 1, ush_createdAt = None\<rparr> new_storage
       = (None, new_storage)"
proof -
  have h: "shares new_storage ex_code = None"
    by (simp add: new_storage_def)
  show ?thesis
    using h updateShare_absent [OF h] by simp
qed

subsection \<open>Updating the member count of a room\<close>

lemma apply_only_activeUsers:
  "apply_chat_session_updates session (only_activeUsers n) = session\<lparr>cs_activeUsers := n\<rparr>"
  by (cases session) (simp add: apply_chat_session_updates_def only_activeUsers_def spread_def)

lemma apply_only_private_activeUsers:
  "apply_private_chat_session_updates session (only_private_activeUsers n)
     = session\<lparr>pcs_activeUsers := n\<rparr>"
  by (cases session)
     (simp add: apply_private_chat_session_updates_def only_private_activeUsers_def spread_def)

text \<open>
  C8. An update that carries only \<^verbatim>\<open>activeUsers\<close> stores the room record with that
  one field replaced: \<^verbatim>\<open>expiresAt\<close> and every other field of the record, and every
  other part of the storage, stay as they were. This holds for the chat session of a share
  and for a private chat session.
\<close>

theorem touch_keeps_expiresAt:
  "(chatSessions st code = Some session \<longrightarrow>
      updateChatSession code (only_activeUsers n) st
        = (Some (session\<lparr>cs_activeUsers := n\<rparr>),
           st\<lparr>chatSessions := (chatSessions st)(code \<mapsto> session\<lparr>cs_activeUsers := n\<rparr>)\<rparr>)
      \<and> cs_expiresAt (session\<lparr>cs_activeUsers := n\<rparr>) = cs_expiresAt session)
   \<and> (privateChatSessions st code = Some psession \<longrightarrow>
      updatePrivateChatSession code (only_private_activeUsers n) st
        = (Some (psession\<lparr>pcs_activeUsers := n\<rparr>),
           st\<lparr>privateChatSessions :=
                (privateChatSessions st)(code \<mapsto> psession\<lparr>pcs_activeUsers := n\<rparr>)\<rparr>)
      \<and> pcs_expiresAt (psession\<lparr>pcs_activeUsers := n\<rparr>) = pcs_expiresAt psession)"
  by (simp add: updateChatSession_def updatePrivateChatSession_def apply_only_activeUsers
      apply_only_private_activeUsers Let_def)

theorem touch_keeps_expiresAt_witness:
  "chatSessions ex_chat_storage ex_code = Some ex_chat_session
   \<and> fst (updateChatSession ex_code (only_activeUsers 2) ex_chat_storage)
       = Some (ex_chat_session\<lparr>cs_activeUsers := 2\<rparr>)
   \<and> cs_expiresAt (ex_chat_session\<lparr>cs_activeUsers := 2\<rparr>) = 1801000
   \<and> privateChatSessions ex_private_chat_storage ex_code = Some ex_private_chat_session
   \<and> fst (updatePrivateChatSession ex_code (only_private_activeUsers 2)
            ex_private_chat_storage)
       = Some (ex_private_chat_session\<lparr>pcs_activeUsers := 2\<rparr>)
   \<and> pcs_expiresAt (ex_private_chat_session\<lparr>pcs_activeUsers := 2\<rparr>) = 7201000"
proof -
  have e1: "cs_expiresAt ex_chat_session = 1801000"
    by (simp add: ex_chat_session_def)
  have e2: "pcs_expiresAt ex_private_chat_session = 7201000"
    by (simp add: ex_private_chat_session_def createPrivateChatRoute_def
        createPrivateChatSession_def Let_def)
  show ?thesis
    using touch_keeps_expiresAt [where st = ex_chat_storage and code = ex_code
        and session = ex_chat_session and n = 2]
      touch_keeps_expiresAt [where st = ex_private_chat_storage and code = ex_code
        and psession = ex_private_chat_session and n = 2]
      chatSessions_ex privateChatSessions_ex e1 e2
    by simp
qed

text \<open>The join handler on a live share with a live chat session: the session is stored
  with the new count and nothing else of it changed.\<close>

lemma handleJoin_live_session:
  assumes "shares (storage srv) (toUpperCase shareCode) = Some share"
    and "\<not> sh_expiresAt share < now"
    and "chatSessions (storage srv) (toUpperCase shareCode) = Some session"
    and "\<not> cs_expiresAt session < now"
  shows "chatSessions (storage (snd (handleJoin isOpen now uuid c shareCode userId srv)))
           (toUpperCase shareCode)
         = Some (session\<lparr>cs_activeUsers :=
                   int (length (set_add c (room_of (shareRooms srv) (toUpperCase shareCode))))\<rparr>)"
  using assms
  by (simp add: handleJoin_def getShareByCode_def getChatSession_def updateChatSession_def
      apply_only_activeUsers Let_def split: option.splits)

subsection \<open>Expiry on access and in the sweep\<close>

text \<open>
  C7, as stated, at the boundary: a share whose \<^verbatim>\<open>expiresAt\<close> equals the clock
  reading is returned by \<^verbatim>\<open>getShareByCode\<close>, which leaves the storage as it is, and
  is kept by \<^verbatim>\<open>cleanupExpired\<close>.
\<close>

theorem expiry_at_equality_counterexample:
  "sh_expiresAt ex_share \<le> 61000
   \<and> getShareByCode 61000 ex_code ex_storage = (Some ex_share, ex_storage)
   \<and> shares (cleanupExpired 61000 ex_storage) ex_code = Some ex_share"
  by (simp add: getShareByCode_def cleanupExpired_def share_expired_def shares_ex_storage
      ex_share_expiresAt)

text \<open>
  C7, amended. Both paths decide expiry by \<^verbatim>\<open>expiresAt < now\<close>. When
  \<^verbatim>\<open>expiresAt < now\<close>, \<^verbatim>\<open>getShareByCode\<close> returns \<^verbatim>\<open>undefined\<close> and
  deletes the record, and \<^verbatim>\<open>cleanupExpired\<close> removes it. When
  \<^verbatim>\<open>now \<le> expiresAt\<close>, equality included, \<^verbatim>\<open>getShareByCode\<close> returns the share
  and changes nothing, and \<^verbatim>\<open>cleanupExpired\<close> keeps it.
\<close>

theorem expiry_paths_agree:
  assumes "shares st code = Some share"
  shows "(sh_expiresAt share < now \<longrightarrow>
            getShareByCode now code st = (None, st\<lparr>shares := (shares st)(code := None)\<rparr>)
            \<and> shares (cleanupExpired now st) code = None)
       \<and> (now \<le> sh_expiresAt share \<longrightarrow>
            getShareByCode now code st = (Some share, st)
            \<and> shares (cleanupExpired now st) code = Some share)"
  using assms by (simp add: getShareByCode_def cleanupExpired_def share_expired_def)

theorem expiry_paths_agree_witness:
  "shares ex_storage ex_code = Some ex_share
   \<and> getShareByCode 61001 ex_code ex_storage
       = (None, ex_storage\<lparr>shares := (shares ex_storage)(ex_code := None)\<rparr>)
   \<and> shares (cleanupExpired 61001 ex_storage) ex_code = None
   \<and> getShareByCode 61000 ex_code ex_storage = (Some ex_share, ex_storage)
   \<and> shares (cleanupExpired 61000 ex_storage) ex_code = Some ex_share"
  using expiry_paths_agree [OF shares_ex_storage, of 61001]
    expiry_paths_agree [OF shares_ex_storage, of 61000] shares_ex_storage ex_share_expiresAt
  by simp

subsection \<open>Creating a share under a code that is taken\<close>

text \<open>
  C2, as stated, on a storage that holds a live share under \<open>ex_code\<close>: a creation
  request with the same code returns the new share, and the map then holds the new share
  in place of the live one.
\<close>

theorem createShare_duplicate_counterexample:
  "getShareByCode 2000 ex_code ex_storage = (Some ex_share, ex_storage)
   \<and> ish_code ex_insert_share_again = sh_code ex_share
   \<and> sh_content (fst (createShare ''id-9'' 2000 ex_insert_share_again ex_storage)) = ''other''
   \<and> shares (snd (createShare ''id-9'' 2000 ex_insert_share_again ex_storage)) ex_code
       = Some (fst (createShare ''id-9'' 2000 ex_insert_share_again ex_storage))
   \<and> shares (snd (createShare ''id-9'' 2000 ex_insert_share_again ex_storage)) ex_code
       \<noteq> shares ex_storage ex_code"
  by (simp add: getShareByCode_def shares_ex_storage ex_share_expiresAt)
     (simp add: ex_share_def createShare_def ex_insert_share_again_def ex_insert_share_def Let_def)

text \<open>
  C2, amended. \<^verbatim>\<open>createShare\<close> has no failure: when the code of the request is
  taken, the new share (\<^verbatim>\<open>viewCount\<close> 0, the given id and creation time) is stored
  under that code in place of the one that was there. Shares under other codes and the
  chat maps are as they were.
\<close>

theorem createShare_overwrites:
  assumes "shares st (ish_code insertShare) = Some old"
  shows "shares (snd (createShare uuid now insertShare st)) (ish_code insertShare)
           = Some (fst (createShare uuid now insertShare st))
       \<and> sh_id (fst (createShare uuid now insertShare st)) = uuid
       \<and> sh_code (fst (createShare uuid now insertShare st)) = ish_code insertShare
       \<and> sh_content (fst (createShare uuid now insertShare st)) = ish_content insertShare
       \<and> sh_expiresAt (fst (createShare uuid now insertShare st)) = ish_expiresAt insertShare
       \<and> sh_viewCount (fst (createShare uuid now insertShare st)) = 0
       \<and> sh_createdAt (fst (createShare uuid now insertShare st)) = now
       \<and> (\<forall>code. code \<noteq> ish_code insertShare \<longrightarrow>
             shares (snd (createShare uuid now insertShare st)) code = shares st code)
       \<and> chatSessions (snd (createShare uuid now insertShare st)) = chatSessions st
       \<and> chatMessages (snd (createShare uuid now insertShare st)) = chatMessages st
       \<and> privateChatSessions (snd (createShare uuid now insertShare st)) = privateChatSessions st
       \<and> privateChatMessages (snd (createShare uuid now insertShare st)) = privateChatMessages st"
  by (simp add: createShare_def Let_def)

theorem createShare_overwrites_witness:
  "shares ex_storage (ish_code ex_insert_share_again) = Some ex_share
   \<and> shares (snd (createShare ''id-9'' 2000 ex_insert_share_again ex_storage))
        (ish_code ex_insert_share_again)
       = Some (fst (createShare ''id-9'' 2000 ex_insert_share_again ex_storage))
   \<and> sh_content (fst (createShare ''id-9'' 2000 ex_insert_share_again ex_storage)) = ''other''
   \<and> sh_viewCount (fst (createShare ''id-9'' 2000 ex_insert_share_again ex_storage)) = 0"
proof -
  have h: "shares ex_storage (ish_code ex_insert_share_again) = Some ex_share"
    by (simp add: ex_insert_share_again_def shares_ex_storage)
  have c: "ish_content ex_insert_share_again = ''other''"
    by (simp add: ex_insert_share_again_def)
  show ?thesis
    using h c createShare_overwrites [OF h, of "''id-9''" 2000] by simp
qed

subsection \<open>Appending a message\<close>

text \<open>
  C3, as stated, on the empty storage: there is no room under \<open>ex_code\<close>, and
  \<^verbatim>\<open>createChatMessage\<close> returns the message and stores it as the log of that code.
\<close>

theorem createChatMessage_absent_room_counterexample:
  "chatSessions new_storage ex_code = None
   \<and> chatMessages new_storage ex_code = None
   \<and> createChatMessage ''id-8'' 2000 (ex_insert_message ex_code ''hi'') new_storage
       = (stamped (''id-8'', 2000, ex_insert_message ex_code ''hi''),
          new_storage\<lparr>chatMessages :=
            [ex_code \<mapsto> [stamped (''id-8'', 2000, ex_insert_message ex_code ''hi'')]]\<rparr>)"
  by (simp add: new_storage_def createChatMessage_def stamped_def ex_insert_message_def Let_def)

text \<open>
  C3, amended. For every room code, whether its room is live, expired or absent,
  \<^verbatim>\<open>createChatMessage\<close> returns the message with the id and the timestamp it was
  given, and the log of the code is the log before with the message at its end (a log is
  started when there was none). The room records are not read and not changed.
\<close>

theorem createChatMessage_always_appends:
  "fst (createChatMessage uuid now insertMessage st) = stamped (uuid, now, insertMessage)
   \<and> getChatMessages (icm_shareCode insertMessage) (snd (createChatMessage uuid now insertMessage st))
       = getChatMessages (icm_shareCode insertMessage) st @ [stamped (uuid, now, insertMessage)]
   \<and> chatSessions (snd (createChatMessage uuid now insertMessage st)) = chatSessions st"
  by (simp add: createChatMessage_def getChatMessages_def stamped_def Let_def)

subsection \<open>History\<close>







section \<open>Properties of the read route\<close>

lemma getShareRoute_absent:
  assumes "shares st (toUpperCase code) = None"
  shows "getShareRoute cmp fm now code password st = (NotFound, st)"
  using assms
  by (simp add: getShareRoute_def getShareRoute_start_def getShareRoute_resume_def
      getShareByCode_def)

lemma num_or_zero_right: "num_or a 0 = a"
  by (simp add: num_or_def)

lemma num_or_same: "num_or a a = a"
  by (simp add: num_or_def)

lemma apply_only_viewCount:
  "apply_share_updates share (only_viewCount n) = share\<lparr>sh_viewCount := n\<rparr>"
  by (cases share) (simp add: apply_share_updates_def only_viewCount_def spread_def)

text \<open>The rest of the handler on a storage that still holds the share it was read from.\<close>

lemma serveShare_present:
  assumes "shares st (toUpperCase code) = Some share"
  shows "serveShare fm code share st
     = (Content \<lparr>rd_type = sh_type share, rd_content = sh_content share,
                 rd_fileName = sh_fileName share, rd_fileSize = sh_fileSize share,
                 rd_expiresAt = sh_expiresAt share, rd_viewCount = sh_viewCount share + 1,
                 rd_fileData = (if sh_type share = File then Some (sh_content share) else None),
                 rd_metadata = (if sh_type share = Url then fm (sh_content share) else None)\<rparr>,
        if sh_oneTimeView share
        then st\<lparr>shares := (shares st)(toUpperCase code := None)\<rparr>
        else st\<lparr>shares := (shares st)(toUpperCase code \<mapsto>
                                share\<lparr>sh_viewCount := sh_viewCount share + 1\<rparr>)\<rparr>)"
proof -
  have upd: "updateShare (toUpperCase code) (only_viewCount (sh_viewCount share + 1)) st
      = (Some (share\<lparr>sh_viewCount := sh_viewCount share + 1\<rparr>),
         st\<lparr>shares := (shares st)(toUpperCase code \<mapsto>
               share\<lparr>sh_viewCount := sh_viewCount share + 1\<rparr>)\<rparr>)"
    using assms by (simp add: updateShare_def apply_only_viewCount Let_def)
  show ?thesis
    by (simp add: serveShare_def num_or_zero_right upd deleteShare_def num_or_same Let_def)
qed

text \<open>The rest of the handler on any storage: the response carries the content of the
  share that was read before the wait, whether or not the storage still holds it.\<close>

lemma serveShare_content:
  "\<exists>rd. fst (serveShare fm code share st) = Content rd \<and> rd_content rd = sh_content share"
  by (simp add: serveShare_def Let_def split: prod.splits)

lemma getShareRoute_resume_accepted:
  assumes "cmp pw hash"
  shows "\<exists>rd. fst (getShareRoute_resume cmp fm code (AwaitingCompare share pw hash) st)
                = Content rd
             \<and> rd_content rd = sh_content share"
  using assms serveShare_content [of fm code share st]
  by (simp add: getShareRoute_resume_def)

lemma getShareRoute_passed:
  assumes "shares st (toUpperCase code) = Some share"
    and "\<not> sh_expiresAt share < now"
    and "password_gate_of (sh_password share) password = NoCheck
         \<or> (\<exists>pw hash. password_gate_of (sh_password share) password = Compare pw hash
                      \<and> cmp pw hash)"
  shows "getShareRoute cmp fm now code password st
     = (Content \<lparr>rd_type = sh_type share, rd_content = sh_content share,
                 rd_fileName = sh_fileName share, rd_fileSize = sh_fileSize share,
                 rd_expiresAt = sh_expiresAt share, rd_viewCount = sh_viewCount share + 1,
                 rd_fileData = (if sh_type share = File then Some (sh_content share) else None),
                 rd_metadata = (if sh_type share = Url then fm (sh_content share) else None)\<rparr>,
        if sh_oneTimeView share
        then st\<lparr>shares := (shares st)(toUpperCase code := None)\<rparr>
        else st\<lparr>shares := (shares st)(toUpperCase code \<mapsto>
                                share\<lparr>sh_viewCount := sh_viewCount share + 1\<rparr>)\<rparr>)"
proof -
  have got: "getShareByCode now (toUpperCase code) st = (Some share, st)"
    using assms(1,2) by (simp add: getShareByCode_def)
  have "getShareRoute cmp fm now code password st = serveShare fm code share st"
    using assms(3)
    by (auto simp: getShareRoute_def getShareRoute_start_def getShareRoute_resume_def got
        split: prod.splits)
  then show ?thesis
    by (simp add: serveShare_present [OF assms(1)])
qed

text \<open>
  Requests that do not overlap. For a live one-time-view share whose password check
  passes, a read request handled with nothing in between returns the share's content and
  leaves the storage without an entry under the code; a read request handled after it, at
  any time and with any password, answers not found, and so does
  \<^verbatim>\<open>getShareByCode\<close>, neither changing the storage.
\<close>

lemma one_time_view_without_overlap:
  assumes "shares st (toUpperCase code) = Some share"
    and "\<not> sh_expiresAt share < now"
    and "sh_oneTimeView share"
    and "password_gate_of (sh_password share) password = NoCheck
         \<or> (\<exists>pw hash. password_gate_of (sh_password share) password = Compare pw hash
                      \<and> cmp pw hash)"
  shows "(\<exists>rd. fst (getShareRoute cmp fm now code password st) = Content rd
               \<and> rd_content rd = sh_content share)
       \<and> snd (getShareRoute cmp fm now code password st)
           = st\<lparr>shares := (shares st)(toUpperCase code := None)\<rparr>
       \<and> getShareRoute cmp fm now' code password'
             (snd (getShareRoute cmp fm now code password st))
           = (NotFound, snd (getShareRoute cmp fm now code password st))
       \<and> getShareByCode now' (toUpperCase code)
             (snd (getShareRoute cmp fm now code password st))
           = (None, snd (getShareRoute cmp fm now code password st))"
proof -
  let ?st1 = "st\<lparr>shares := (shares st)(toUpperCase code := None)\<rparr>"
  have first: "snd (getShareRoute cmp fm now code password st) = ?st1"
    and content: "\<exists>rd. fst (getShareRoute cmp fm now code password st) = Content rd
               \<and> rd_content rd = sh_content share"
    using getShareRoute_passed [OF assms(1,2,4), of fm] assms(3) by simp_all
  have gone: "shares ?st1 (toUpperCase code) = None"
    by simp
  have again: "getShareRoute cmp fm now' code password' ?st1 = (NotFound, ?st1)"
    using gone by (rule getShareRoute_absent)
  have read: "getShareByCode now' (toUpperCase code) ?st1 = (None, ?st1)"
    using gone by (simp add: getShareByCode_def)
  show ?thesis
    using first content again read by simp
qed

text \<open>
  C1, on a password-protected one-time-view share read by two requests that overlap. Both
  requests find the share and wait for the compare. The first then gets the content and
  the entry is deleted. The second, going on after the deletion, gets the content too,
  from the share it read before the wait.
\<close>

theorem one_time_view_served_twice:
  "fst overlap_answered_A = Content ex_once_response
   \<and> shares (snd overlap_answered_A) ex_code = None
   \<and> fst overlap_answered_B = Content ex_once_response
   \<and> shares (snd overlap_answered_B) ex_code = None"
  by code_simp

text \<open>
  C6. For a live share with a stored password hash, a read request with no password or
  an empty one gets the password-required answer, and one with a password that
  \<^verbatim>\<open>bcrypt.compare\<close> rejects gets the invalid-password answer; in both cases the
  storage is as it was. A password that \<^verbatim>\<open>bcrypt.compare\<close> accepts gets the content,
  and the view is counted (or the one-time-view share deleted). The stored hash is not
  empty: \<^verbatim>\<open>createShare\<close> stores \<^verbatim>\<open>null\<close> for an empty password.
\<close>

theorem password_gate_keeps_entry:
  assumes "shares st (toUpperCase code) = Some share"
    and "\<not> sh_expiresAt share < now"
    and "sh_password share = Some hash"
    and "hash \<noteq> []"
  shows "getShareRoute cmp fm now code None st = (RequiresPassword, st)
       \<and> getShareRoute cmp fm now code (Some []) st = (RequiresPassword, st)
       \<and> (pw \<noteq> [] \<and> \<not> cmp pw hash \<longrightarrow>
            getShareRoute cmp fm now code (Some pw) st = (InvalidPassword, st))
       \<and> (pw \<noteq> [] \<and> cmp pw hash \<longrightarrow>
            (\<exists>rd. fst (getShareRoute cmp fm now code (Some pw) st) = Content rd
                  \<and> rd_viewCount rd = sh_viewCount share + 1)
            \<and> shares (snd (getShareRoute cmp fm now code (Some pw) st)) (toUpperCase code)
                = (if sh_oneTimeView share then None
                   else Some (share\<lparr>sh_viewCount := sh_viewCount share + 1\<rparr>)))"
proof -
  have got: "getShareByCode now (toUpperCase code) st = (Some share, st)"
    using assms(1,2) by (simp add: getShareByCode_def)
  have missing: "getShareRoute cmp fm now code None st = (RequiresPassword, st)"
    and empty: "getShareRoute cmp fm now code (Some []) st = (RequiresPassword, st)"
    using assms(3,4)
    by (simp_all add: getShareRoute_def getShareRoute_start_def getShareRoute_resume_def got
        password_gate_of_def)
  have wrong: "getShareRoute cmp fm now code (Some pw) st = (InvalidPassword, st)"
    if "pw \<noteq> [] \<and> \<not> cmp pw hash"
    using that assms(3,4)
    by (simp add: getShareRoute_def getShareRoute_start_def getShareRoute_resume_def got
        password_gate_of_def)
  have right: "(\<exists>rd. fst (getShareRoute cmp fm now code (Some pw) st) = Content rd
                  \<and> rd_viewCount rd = sh_viewCount share + 1)
            \<and> shares (snd (getShareRoute cmp fm now code (Some pw) st)) (toUpperCase code)
                = (if sh_oneTimeView share then None
                   else Some (share\<lparr>sh_viewCount := sh_viewCount share + 1\<rparr>))"
    if "pw \<noteq> [] \<and> cmp pw hash"
  proof -
    have p: "password_gate_of (sh_password share) (Some pw) = NoCheck
         \<or> (\<exists>pw' hash. password_gate_of (sh_password share) (Some pw) = Compare pw' hash
                       \<and> cmp pw' hash)"
      using that assms(3,4) by (simp add: password_gate_of_def)
    show ?thesis
      using getShareRoute_passed [OF assms(1,2) p, of fm] by simp
  qed
  show ?thesis
    using missing empty wrong right by blast
qed

lemma shares_ex_protected_storage:
  "shares ex_protected_storage (toUpperCase ex_code) = Some ex_protected_share"
  by (simp add: toUpperCase_ex_code ex_protected_storage_def ex_protected_share_def
      createShare_def ex_insert_protected_def Let_def)

lemma ex_protected_share_fields:
  "sh_expiresAt ex_protected_share = 61000"
  "sh_password ex_protected_share = Some ''$2b$10$hash''"
  "sh_viewCount ex_protected_share = 0"
  "sh_oneTimeView ex_protected_share = False"
  by (simp_all add: ex_protected_share_def createShare_def ex_insert_protected_def
      str_or_null_def bool_or_false_def Let_def)

theorem password_gate_keeps_entry_witness:
  "shares ex_protected_storage (toUpperCase ex_code) = Some ex_protected_share
   \<and> \<not> sh_expiresAt ex_protected_share < 2000
   \<and> sh_password ex_protected_share = Some ''$2b$10$hash''
   \<and> getShareRoute ex_compare ex_no_metadata 2000 ex_code None ex_protected_storage
       = (RequiresPassword, ex_protected_storage)
   \<and> getShareRoute ex_compare ex_no_metadata 2000 ex_code (Some ''guess'') ex_protected_storage
       = (InvalidPassword, ex_protected_storage)
   \<and> shares (snd (getShareRoute ex_compare ex_no_metadata 2000 ex_code (Some ''secret'')
                    ex_protected_storage)) (toUpperCase ex_code)
       = Some (ex_protected_share\<lparr>sh_viewCount := 1\<rparr>)"
proof -
  have h2: "\<not> sh_expiresAt ex_protected_share < 2000"
    by (simp add: ex_protected_share_fields)
  have h4: "''$2b$10$hash'' \<noteq> []"
    by simp
  note wrong = password_gate_keeps_entry [OF shares_ex_protected_storage h2
      ex_protected_share_fields(2) h4, of ex_compare ex_no_metadata "''guess''"]
  note right = password_gate_keeps_entry [OF shares_ex_protected_storage h2
      ex_protected_share_fields(2) h4, of ex_compare ex_no_metadata "''secret''"]
  show ?thesis
    using wrong right shares_ex_protected_storage h2
    by (simp add: ex_protected_share_fields ex_compare_def)
qed

text \<open>The same in the two parts of the handler: on a live share with a stored hash the
  part before the wait writes nothing, and a rejected password writes nothing on
  whatever storage the handler goes on with.\<close>

lemma getShareRoute_start_protected:
  assumes "shares st (toUpperCase code) = Some share"
    and "\<not> sh_expiresAt share < now"
    and "sh_password share = Some hash"
    and "hash \<noteq> []"
  shows "snd (getShareRoute_start fm now code password st) = st"
  using assms
  by (simp add: getShareRoute_start_def getShareByCode_def password_gate_of_def
      split: option.splits)

lemma getShareRoute_resume_rejected:
  assumes "\<not> cmp pw hash"
  shows "getShareRoute_resume cmp fm code (AwaitingCompare share pw hash) st
           = (InvalidPassword, st)"
  using assms by (simp add: getShareRoute_resume_def)

section \<open>Properties of the broker\<close>

text \<open>The close handler leaves the private chat maps as they are, whatever room the
  connection was in; when the last member of a room leaves, the chat session and the
  message log of a share under the room's code are both removed.\<close>

lemma onClose_keeps_private_chat:
  "privateChatSessions (storage (snd (onClose isOpen c srv))) = privateChatSessions (storage srv)
   \<and> privateChatMessages (storage (snd (onClose isOpen c srv)))
       = privateChatMessages (storage srv)"
  by (simp add: onClose_def deleteChatSession_def updateChatSession_def Let_def
      split: option.splits)

lemma onClose_last_member_of_content_room:
  assumes "clients srv c = Some client"
    and "shareRooms srv (cc_shareCode client) = Some [c]"
  shows "shareRooms (snd (onClose isOpen c srv)) (cc_shareCode client) = None
       \<and> chatSessions (storage (snd (onClose isOpen c srv))) (cc_shareCode client) = None
       \<and> chatMessages (storage (snd (onClose isOpen c srv))) (cc_shareCode client) = None
       \<and> clients (snd (onClose isOpen c srv)) c = None"
  using assms by (simp add: onClose_def set_delete_def deleteChatSession_def Let_def)

text \<open>
  C4, on a standalone private chat room. After both members have disconnected, the
  membership set of the room is gone and no connection is bound, and the storage still
  holds the private chat session (with \<^verbatim>\<open>activeUsers\<close> 2) and its message log:
  the close handler deleted the chat session of a share under that code.
\<close>

theorem private_room_survives_last_disconnect:
  "shareRooms private_room_closed_B ex_code = None
   \<and> clients private_room_closed_B 1 = None
   \<and> clients private_room_closed_B 2 = None
   \<and> privateChatSessions (storage private_room_closed_B) ex_code
       = Some (ex_private_chat_session\<lparr>pcs_activeUsers := 2\<rparr>)
   \<and> getPrivateChatMessages ex_code (storage private_room_closed_B)
       = [stamped_private (''id-7'', 4000, ex_insert_private_message ex_code ''hi'')]"
  by code_simp

text \<open>
  C5, on a standalone private chat room with two members. After the first disconnects,
  the membership set holds one connection, the other member is told a count of 1, and
  the stored \<^verbatim>\<open>activeUsers\<close> of the room is still 2.
\<close>

theorem private_room_count_after_disconnect:
  "shareRooms private_room_closed_A ex_code = Some [2]
   \<and> fst (onClose all_open 1 private_room_message) = [(2, UserCount 1 None)]
   \<and> map_option pcs_activeUsers (privateChatSessions (storage private_room_closed_A) ex_code)
       = Some 2"
  by code_simp

text \<open>
  On a content room: when the chat session has expired while the room still has a member,
  the next join stores the new session with \<^verbatim>\<open>activeUsers\<close> 1, for a membership
  set of two connections.
\<close>

lemma content_room_count_after_session_expiry:
  "shareRooms content_room_joined_B ex_code = Some [1, 2]
   \<and> map_option cs_activeUsers (chatSessions (storage content_room_joined_B) ex_code) = Some 1"
  by code_simp

end
